theory Spec2Isabelle
  imports Complex_Main "HOL-Library.Log_Nat"
begin

section \<open>Strings and numbers of the script\<close>

text \<open>
  The program is \<^verbatim>\<open>static/js/main.js\<close>, the browser script of the document dashboard.
  A JavaScript string is modelled as a \<^typ>\<open>string\<close>: every character stands for one
  UTF-16 code unit below 256, so the model covers Latin-1 text.

  A finite JavaScript Number is modelled by its exact rational value. A decimal
  literal, in the script or in a JSON body, denotes the nearest double
  (\<open>Number_of\<close>), and a product is rounded to the nearest double again (\<open>js_times\<close>):
  53 bits of significand, ties to even. The exponent range (overflow to Infinity,
  subnormal numbers) and NaN are outside the model.
\<close>

type_synonym number = rat

definition pow2 :: "int \<Rightarrow> rat" where
  "pow2 e = (if 0 \<le> e then 2 ^ nat e else 1 / 2 ^ nat (- e))"

definition round_half_even :: "rat \<Rightarrow> int" where
  "round_half_even q =
     (let f = \<lfloor>q\<rfloor>; d = q - of_int f
      in if d < 1 / 2 then f else if 1 / 2 < d then f + 1 else if even f then f else f + 1)"

text \<open>The exponent \<open>e\<close> with \<open>2 ^ e \<le> q < 2 ^ (e + 1)\<close>, for a positive \<open>q\<close>.\<close>

definition binade :: "rat \<Rightarrow> int" where
  "binade q =
     (let (a, b) = quotient_of q; e0 = bitlen a - bitlen b
      in if pow2 e0 \<le> q then e0 else e0 - 1)"

definition Number_of :: "rat \<Rightarrow> number" where
  "Number_of q =
     (if q = 0 then 0
      else let e = binade \<bar>q\<bar>; n = round_half_even (\<bar>q\<bar> * pow2 (52 - e))
           in sgn q * of_int n * pow2 (e - 52))"

definition js_times :: "number \<Rightarrow> number \<Rightarrow> number" where
  "js_times x y = Number_of (x * y)"

text \<open>
  \<^verbatim>\<open>Math.round\<close>: the nearest integer, a tie going towards plus infinity.
\<close>

definition Math_round :: "number \<Rightarrow> int" where
  "Math_round x = \<lfloor>x + 1 / 2\<rfloor>"

fun string_of_nat :: "nat \<Rightarrow> string" where
  "string_of_nat n =
     (if n < 10 then [''0123456789'' ! n]
      else string_of_nat (n div 10) @ [''0123456789'' ! (n mod 10)])"

text \<open>
  The text of an integral Number in a template literal. JavaScript prints plain
  decimal digits for magnitudes below \<open>10 ^ 21\<close>, which is all this function covers.
\<close>

definition string_of_int :: "int \<Rightarrow> string" where
  "string_of_int i = (if i < 0 then ''-'' @ string_of_nat (nat (- i)) else string_of_nat (nat i))"

text \<open>
  \<^verbatim>\<open>x || d\<close> on a string that may be absent: \<open>undefined\<close>, \<open>null\<close> and the empty
  string are falsy. \<^verbatim>\<open>x ?? d\<close> replaces only \<open>undefined\<close> and \<open>null\<close>.
\<close>

definition or_else :: "string option \<Rightarrow> string \<Rightarrow> string" where
  "or_else x d = (case x of None \<Rightarrow> d | Some v \<Rightarrow> if v = [] then d else v)"

definition nullish_else :: "'a option \<Rightarrow> 'a \<Rightarrow> 'a" where
  "nullish_else x d = (case x of None \<Rightarrow> d | Some v \<Rightarrow> v)"

text \<open>
  \<^verbatim>\<open>String.prototype.trim\<close> removes white space and line terminators at both ends;
  below 256 these are the code units 9 to 13, 32 and 160.
\<close>

definition is_space :: "char \<Rightarrow> bool" where
  "is_space c = (of_char c \<in> {9, 10, 11, 12, 13, 32, 160 :: nat})"

definition trim :: "string \<Rightarrow> string" where
  "trim s = rev (dropWhile is_space (rev (dropWhile is_space s)))"


section \<open>The page, the session state and the network\<close>

text \<open>
  An element holds what the script reads and writes: \<^verbatim>\<open>style.display\<close>,
  \<^verbatim>\<open>style.width\<close>, its content (last written as \<^verbatim>\<open>textContent\<close> or as
  \<^verbatim>\<open>innerHTML\<close>), \<^verbatim>\<open>value\<close>, \<^verbatim>\<open>disabled\<close> and \<^verbatim>\<open>classList\<close>.
\<close>

datatype content = Text string | Html string

record element =
  display :: string
  width :: string
  content :: content
  val :: string
  disabled :: bool
  classList :: "string list"

record js_file =
  name :: string
  type :: string
  size :: nat

datatype body = NoBody | FormData "(string \<times> js_file) list" | Json "(string \<times> string) list"

text \<open>A call of \<^verbatim>\<open>fetch\<close>: the URL and the options; \<open>http_method\<close> is the HTTP verb.\<close>

record request =
  url :: string
  http_method :: string
  headers :: "(string \<times> string) list"
  body :: body

text \<open>The parsed JSON bodies of the responses, with the fields the script reads.
  A field that is absent or \<open>null\<close> is \<open>None\<close>; an absent \<open>success\<close> is falsy.\<close>

record api_response =
  success :: bool
  error :: "string option"

record upload_response = api_response +
  document_id :: "string option"

record classification =
  ctype :: "string option"
  confidence :: "number option"

record routing =
  department :: "string option"

record process_response = api_response +
  classification :: "classification option"
  routing :: "routing option"
  extracted_text :: "string option"

record chat_response =
  response :: "string option"

text \<open>A fetch chain settles with the parsed body, or is rejected (network failure,
  body that is not JSON) with an error.\<close>

datatype js_error = TypeError | Error string

datatype 'a settled = Rejected js_error | Resolved 'a

text \<open>The message of a \<open>TypeError\<close> is chosen by the engine; the model fixes one.\<close>

fun message :: "js_error \<Rightarrow> string" where
  "message TypeError = ''TypeError''"
| "message (Error m) = m"

text \<open>
  \<^verbatim>\<open>processDocument\<close> reads the global \<^verbatim>\<open>event\<close> (\<^verbatim>\<open>window.event\<close>): \<open>None\<close> when no
  event is being dispatched. \<open>closest_button\<close> is the element that
  \<^verbatim>\<open>event.target.closest('button')\<close> yields, \<open>None\<close> when that is \<open>null\<close>.
\<close>

record js_event =
  closest_button :: "string option"

record chart =
  canvas :: string
  chart_type :: string
  labels :: "string list"
  data :: "nat list"
  backgroundColor :: "string list"
  responsive :: bool
  legend_position :: string

datatype callback = ProcessComplete process_response

text \<open>
  The state: the two globals of the script, the live \<^verbatim>\<open>Chart\<close> instances (with the
  counter that names the next one), the elements of the page by selector, the
  requests issued so far and the pending timers with their delays.
  The elements of a page are fixed; different selectors name different elements.
  What the script writes to the console, and \<^verbatim>\<open>preventDefault\<close>, leave no trace in
  the state.
\<close>

record state =
  currentDocumentId :: "string option"
  typeChart :: "nat option"
  charts :: "(nat \<times> chart) list"
  next_chart :: nat
  document :: "string \<rightharpoonup> element"
  requests :: "request list"
  timers :: "(nat \<times> callback) list"

text \<open>A call returns, or throws after the effects it had so far.\<close>

datatype outcome = Done state | Threw js_error state

definition seq :: "outcome \<Rightarrow> (state \<Rightarrow> outcome) \<Rightarrow> outcome" where
  "seq r f = (case r of Done s \<Rightarrow> f s | Threw e s \<Rightarrow> Threw e s)"

definition catch :: "outcome \<Rightarrow> (js_error \<Rightarrow> state \<Rightarrow> outcome) \<Rightarrow> outcome" where
  "catch r h = (case r of Done s \<Rightarrow> Done s | Threw e s \<Rightarrow> h e s)"

fun state_of :: "outcome \<Rightarrow> state" where
  "state_of (Done s) = s"
| "state_of (Threw e s) = s"

text \<open>\<^verbatim>\<open>if (x) x.p = v\<close>: the assignment is skipped when the element is missing.\<close>

definition upd_elem :: "string \<Rightarrow> (element \<Rightarrow> element) \<Rightarrow> state \<Rightarrow> state" where
  "upd_elem k f s =
     (case document s k of None \<Rightarrow> s | Some el \<Rightarrow> s\<lparr>document := (document s)(k \<mapsto> f el)\<rparr>)"

text \<open>\<^verbatim>\<open>x.p = v\<close> with no guard: a missing element is a \<open>TypeError\<close>.\<close>

definition req_elem :: "string \<Rightarrow> (element \<Rightarrow> element) \<Rightarrow> state \<Rightarrow> outcome" where
  "req_elem k f s =
     (case document s k of None \<Rightarrow> Threw TypeError s
      | Some el \<Rightarrow> Done (s\<lparr>document := (document s)(k \<mapsto> f el)\<rparr>))"

definition fetch :: "request \<Rightarrow> state \<Rightarrow> state" where
  "fetch r s = s\<lparr>requests := requests s @ [r]\<rparr>"

definition setTimeout :: "callback \<Rightarrow> nat \<Rightarrow> state \<Rightarrow> state" where
  "setTimeout cb ms s = s\<lparr>timers := timers s @ [(ms, cb)]\<rparr>"


section \<open>The upload workflow\<close>

definition hideAllSections :: "state \<Rightarrow> state" where
  "hideAllSections s =
     upd_elem ''errorSection'' (\<lambda>el. el\<lparr>display := ''none''\<rparr>)
       (upd_elem ''resultsSection'' (\<lambda>el. el\<lparr>display := ''none''\<rparr>)
         (upd_elem ''processingSection'' (\<lambda>el. el\<lparr>display := ''none''\<rparr>) s))"

definition showError :: "string \<Rightarrow> state \<Rightarrow> state" where
  "showError msg s =
     (let s1 = hideAllSections s
      in case document s1 ''errorSection'' of
           None \<Rightarrow> s1
         | Some _ \<Rightarrow>
             upd_elem ''errorMessage'' (\<lambda>el. el\<lparr>content := Text msg\<rparr>)
               (upd_elem ''errorSection'' (\<lambda>el. el\<lparr>display := ''block''\<rparr>) s1))"

definition resetUploadForm :: "state \<Rightarrow> state" where
  "resetUploadForm s =
     (let s1 = hideAllSections s;
          s2 = upd_elem ''fileInput'' (\<lambda>el. el\<lparr>val := ''''\<rparr>) s1;
          s3 = s2\<lparr>currentDocumentId := None\<rparr>
      in upd_elem ''.upload-section'' (\<lambda>el. el\<lparr>display := ''block''\<rparr>) s3)"

definition updateProgress :: "nat \<Rightarrow> string \<Rightarrow> state \<Rightarrow> state" where
  "updateProgress percent msg s =
     upd_elem ''progressContainer'' (\<lambda>el. el\<lparr>display := ''block''\<rparr>)
       (upd_elem ''processingStatus'' (\<lambda>el. el\<lparr>content := Text msg\<rparr>)
         (upd_elem ''progressBar'' (\<lambda>el. el\<lparr>width := string_of_nat percent @ ''%''\<rparr>) s))"

definition getConfidenceBadgeClass :: "number \<Rightarrow> string" where
  "getConfidenceBadgeClass c =
     (if Number_of (8 / 10) \<le> c then ''success''
      else if Number_of (6 / 10) \<le> c then ''warning''
      else ''danger'')"

text \<open>The two template literals of \<^verbatim>\<open>showResults\<close>, with their line breaks.\<close>

definition confidence_badge :: "number \<Rightarrow> string" where
  \<open>confidence_badge c =
     ''\<newline>        <span class="badge bg-'' @ getConfidenceBadgeClass c @ ''">\<newline>            ''
       @ string_of_int (Math_round (js_times c 100)) @ ''%\<newline>        </span>\<newline>    ''\<close>

definition extracted_text_pre :: "string option \<Rightarrow> string" where
  \<open>extracted_text_pre t =
     ''<pre class="text-wrap">'' @ or_else t ''[No text extracted]'' @ ''</pre>''\<close>

text \<open>The optional chains \<^verbatim>\<open>data?.classification?.type\<close>,
  \<^verbatim>\<open>data?.classification?.confidence\<close> and \<^verbatim>\<open>data?.routing?.department\<close>.\<close>

definition classification_type :: "process_response \<Rightarrow> string option" where
  "classification_type d = (case classification d of None \<Rightarrow> None | Some c \<Rightarrow> ctype c)"

definition classification_confidence :: "process_response \<Rightarrow> number option" where
  "classification_confidence d = (case classification d of None \<Rightarrow> None | Some c \<Rightarrow> confidence c)"

definition routing_department :: "process_response \<Rightarrow> string option" where
  "routing_department d = (case routing d of None \<Rightarrow> None | Some r \<Rightarrow> department r)"

definition showResults :: "process_response \<Rightarrow> state \<Rightarrow> outcome" where
  "showResults d s =
     (let docType = or_else (classification_type d) ''Not classified'';
          conf = nullish_else (classification_confidence d) 0;
          routedTo = or_else (routing_department d) ''Unassigned''
      in seq (req_elem ''resultsSection'' (\<lambda>el. el\<lparr>display := ''block''\<rparr>) (hideAllSections s))
        (\<lambda>s. seq (req_elem ''documentType'' (\<lambda>el. el\<lparr>content := Text docType\<rparr>) s)
        (\<lambda>s. seq (req_elem ''confidence'' (\<lambda>el. el\<lparr>content := Html (confidence_badge conf)\<rparr>) s)
        (\<lambda>s. seq (req_elem ''routedTo'' (\<lambda>el. el\<lparr>content := Text routedTo\<rparr>) s)
        (\<lambda>s. seq (req_elem ''extractedText''
                     (\<lambda>el. el\<lparr>content := Html (extracted_text_pre (extracted_text d))\<rparr>) s)
        (\<lambda>s. Done (upd_elem ''reclassifyBtn'' (\<lambda>el. el\<lparr>display := ''none''\<rparr>)
                     (upd_elem ''manualClassification'' (\<lambda>el. el\<lparr>val := ''''\<rparr>) s))))))))"

definition spinner :: string where
  \<open>spinner = ''<i class="fas fa-spinner fa-spin me-1"></i>Processing...''\<close>

definition processDocument :: "string option \<Rightarrow> js_event option \<Rightarrow> state \<Rightarrow> outcome" where
  "processDocument documentId ev s =
     (case documentId of
        None \<Rightarrow> Done (showError ''No document ID provided'' s)
      | Some x \<Rightarrow>
          if x = [] then Done (showError ''No document ID provided'' s)
          else
            seq (case ev of
                   None \<Rightarrow> Done s
                 | Some e \<Rightarrow>
                     (case closest_button e of
                        None \<Rightarrow> Threw TypeError s
                      | Some b \<Rightarrow>
                          Done (upd_elem b (\<lambda>el. el\<lparr>disabled := True, content := Html spinner\<rparr>) s)))
              (\<lambda>s. Done (fetch \<lparr>url = ''/process/'' @ x, http_method = ''POST'',
                                 headers = [], body = NoBody\<rparr>
                           (updateProgress 50 ''Extracting text using OCR...'' s))))"

text \<open>The callbacks of the fetch chain of \<^verbatim>\<open>processDocument\<close>: the \<^verbatim>\<open>then\<close> on the parsed
  body, the \<^verbatim>\<open>catch\<close>, and the two together on a settled fetch.\<close>

definition processDocument_then :: "process_response \<Rightarrow> state \<Rightarrow> outcome" where
  "processDocument_then d s =
     (if success d
      then Done (setTimeout (ProcessComplete d) 1000 (updateProgress 80 ''Classifying document...'' s))
      else Threw (Error (or_else (error d) ''Processing failed'')) s)"

definition processDocument_catch :: "js_error \<Rightarrow> state \<Rightarrow> outcome" where
  "processDocument_catch e s = Done (showError (''Processing failed: '' @ message e) s)"

definition processDocument_settled :: "process_response settled \<Rightarrow> state \<Rightarrow> outcome" where
  "processDocument_settled r s =
     (case r of
        Rejected e \<Rightarrow> processDocument_catch e s
      | Resolved d \<Rightarrow> catch (processDocument_then d s) processDocument_catch)"

text \<open>The body of the timer that \<^verbatim>\<open>processDocument\<close> sets.\<close>

fun run_callback :: "callback \<Rightarrow> state \<Rightarrow> outcome" where
  "run_callback (ProcessComplete d) s = showResults d (updateProgress 100 ''Processing complete!'' s)"

definition uploadFile :: "js_file \<Rightarrow> state \<Rightarrow> outcome" where
  "uploadFile f s =
     seq (req_elem ''processingSection'' (\<lambda>el. el\<lparr>display := ''block''\<rparr>) (hideAllSections s))
       (\<lambda>s. Done (fetch \<lparr>url = ''/upload'', http_method = ''POST'', headers = [],
                          body = FormData [(''file'', f)]\<rparr>
                    (updateProgress 10 ''Uploading file...'' s)))"

definition uploadFile_then :: "upload_response \<Rightarrow> js_event option \<Rightarrow> state \<Rightarrow> outcome" where
  "uploadFile_then d ev s =
     (if success d
      then (let s1 = s\<lparr>currentDocumentId := document_id d\<rparr>;
                s2 = updateProgress 30 ''File uploaded successfully. Starting processing...'' s1
            in processDocument (currentDocumentId s2) ev s2)
      else Threw (Error (or_else (error d) ''Upload failed'')) s)"

definition uploadFile_catch :: "js_error \<Rightarrow> state \<Rightarrow> outcome" where
  "uploadFile_catch e s = Done (showError (''Upload failed: '' @ message e) s)"

definition uploadFile_settled ::
  "upload_response settled \<Rightarrow> js_event option \<Rightarrow> state \<Rightarrow> outcome" where
  "uploadFile_settled r ev s =
     (case r of
        Rejected e \<Rightarrow> uploadFile_catch e s
      | Resolved d \<Rightarrow> catch (uploadFile_then d ev s) uploadFile_catch)"

definition allowedTypes :: "string list" where
  "allowedTypes =
     [''application/pdf'',
      ''application/vnd.openxmlformats-officedocument.wordprocessingml.document'',
      ''image/jpeg'', ''image/jpg'', ''image/png'']"

definition handleFile :: "js_file \<Rightarrow> state \<Rightarrow> outcome" where
  "handleFile f s =
     (if type f \<notin> set allowedTypes
      then Done (showError ''Invalid file type. Please upload PDF, DOCX, JPG, or PNG files.'' s)
      else if 16 * 1024 * 1024 < size f
      then Done (showError ''File too large. Maximum size is 16MB.'' s)
      else uploadFile f s)"

text \<open>The two listeners that reach \<^verbatim>\<open>handleFile\<close>: a change of the file input and a
  drop on the upload area, each with the list of files of its event.\<close>

definition handleFileSelect :: "js_file list \<Rightarrow> state \<Rightarrow> outcome" where
  "handleFileSelect files s = (case files of [] \<Rightarrow> Done s | f # _ \<Rightarrow> handleFile f s)"

definition handleDrop :: "js_file list \<Rightarrow> state \<Rightarrow> outcome" where
  "handleDrop files s =
     seq (req_elem ''uploadArea'' (\<lambda>el. el\<lparr>classList := removeAll ''drag-over'' (classList el)\<rparr>) s)
       (\<lambda>s. if 0 < length files then handleFile (files ! 0) s else Done s)"


section \<open>The statistics chart\<close>

text \<open>
  \<^verbatim>\<open>new Chart\<close> makes an instance that lives until its \<^verbatim>\<open>destroy\<close> is called. The type
  distribution is the list of the object's entries in the order of \<^verbatim>\<open>Object.keys\<close>.
\<close>

definition destroy :: "nat \<Rightarrow> state \<Rightarrow> state" where
  "destroy c s = s\<lparr>charts := filter (\<lambda>(i, _). i \<noteq> c) (charts s)\<rparr>"

definition new_Chart :: "chart \<Rightarrow> state \<Rightarrow> nat \<times> state" where
  "new_Chart cfg s =
     (next_chart s, s\<lparr>charts := charts s @ [(next_chart s, cfg)], next_chart := Suc (next_chart s)\<rparr>)"

definition updateTypeChart :: "(string \<times> nat) list \<Rightarrow> state \<Rightarrow> state" where
  "updateTypeChart typeDistribution s =
     (case document s ''typeChart'' of
        None \<Rightarrow> s
      | Some _ \<Rightarrow>
          (let s1 = (case typeChart s of None \<Rightarrow> s | Some c \<Rightarrow> destroy c s);
               (c, s2) = new_Chart
                 \<lparr>canvas = ''typeChart'', chart_type = ''doughnut'',
                  labels = map fst typeDistribution, data = map snd typeDistribution,
                  backgroundColor =
                    [''#0d6efd'', ''#6f42c1'', ''#d63384'', ''#dc3545'', ''#fd7e14'',
                     ''#ffc107'', ''#198754'', ''#20c997'', ''#0dcaf0'', ''#6c757d''],
                  responsive = True, legend_position = ''bottom''\<rparr> s1
           in s2\<lparr>typeChart := Some c\<rparr>))"


section \<open>The chat widget\<close>

text \<open>
  Reading \<^verbatim>\<open>innerHTML\<close> gives back the markup written, and the escaped text after a
  write of \<^verbatim>\<open>textContent\<close>. The transcript is the markup appended so far; what the
  HTML parser does to it, and the scrolling, are not modelled.
\<close>

fun html_escape :: "string \<Rightarrow> string" where
  "html_escape [] = []"
| "html_escape (c # cs) =
     (if c = CHR ''&'' then ''&amp;''
      else if c = CHR ''<'' then ''&lt;''
      else if c = CHR ''>'' then ''&gt;''
      else if c = CHR 0xA0 then ''&nbsp;''
      else [c]) @ html_escape cs"

definition innerHTML :: "element \<Rightarrow> string" where
  "innerHTML el = (case content el of Html h \<Rightarrow> h | Text t \<Rightarrow> html_escape t)"

definition append_html :: "string \<Rightarrow> string \<Rightarrow> state \<Rightarrow> state" where
  "append_html k h s = upd_elem k (\<lambda>el. el\<lparr>content := Html (innerHTML el @ h)\<rparr>) s"

text \<open>The keypress listener of the chat input, on the \<^verbatim>\<open>key\<close> of the event. The listener
  exists only on a page that has the input.\<close>

definition chat_keypress :: "string \<Rightarrow> state \<Rightarrow> outcome" where
  "chat_keypress key s =
     (if key = ''Enter'' then
        (case document s ''chat-input'' of
           None \<Rightarrow> Done s
         | Some inp \<Rightarrow>
             (let msg = trim (val inp)
              in if msg \<noteq> [] then
                   (case document s ''chat-messages'' of
                      None \<Rightarrow> Threw TypeError s
                    | Some _ \<Rightarrow>
                        Done (fetch \<lparr>url = ''/api/chatbot'', http_method = ''POST'',
                                     headers = [(''Content-Type'', ''application/json'')],
                                     body = Json [(''message'', msg)]\<rparr>
                               (upd_elem ''chat-input'' (\<lambda>el. el\<lparr>val := ''''\<rparr>)
                                 (append_html ''chat-messages''
                                    (''<div><strong>You:</strong> '' @ msg @ ''</div>'') s))))
                 else Done s))
      else Done s)"

text \<open>The fetch chain of the chat settles: the reply is appended, or the fixed line.
  An absent \<^verbatim>\<open>response\<close> field prints as \<^verbatim>\<open>undefined\<close>.\<close>

definition chat_settled :: "chat_response settled \<Rightarrow> state \<Rightarrow> state" where
  "chat_settled r s =
     (case r of
        Resolved d \<Rightarrow>
          append_html ''chat-messages''
            (''<div><strong>Bot:</strong> ''
               @ (case response d of None \<Rightarrow> ''undefined'' | Some t \<Rightarrow> t) @ ''</div>'') s
      | Rejected _ \<Rightarrow>
          append_html ''chat-messages''
            ''<div><strong>Bot:</strong> Error processing your message.</div>'' s)"


section \<open>The workflow as a transition system\<close>

text \<open>
  The events that drive the upload workflow: a file chosen or dropped, the upload
  or the processing fetch settling, a pending timer firing, and a click on either
  button that resets the form. A step keeps the state an uncaught error leaves.
\<close>

datatype event =
    Change "js_file list"
  | Drop "js_file list"
  | UploadSettled "upload_response settled" "js_event option"
  | ProcessSettled "process_response settled"
  | Timeout nat
  | Reset

fun step :: "event \<Rightarrow> state \<Rightarrow> state" where
  "step (Change files) s = state_of (handleFileSelect files s)"
| "step (Drop files) s = state_of (handleDrop files s)"
| "step (UploadSettled r ev) s = state_of (uploadFile_settled r ev s)"
| "step (ProcessSettled r) s = state_of (processDocument_settled r s)"
| "step (Timeout i) s =
     (if i < length (timers s)
      then state_of (run_callback (snd (timers s ! i))
                       (s\<lparr>timers := take i (timers s) @ drop (Suc i) (timers s)\<rparr>))
      else s)"
| "step Reset s = resetUploadForm s"

definition run :: "event list \<Rightarrow> state \<Rightarrow> state" where
  "run es s = fold step es s"

text \<open>A section shows unless its \<^verbatim>\<open>style.display\<close> is \<^verbatim>\<open>none\<close>.\<close>

definition visible :: "string \<Rightarrow> state \<Rightarrow> bool" where
  "visible k s = (case document s k of None \<Rightarrow> False | Some el \<Rightarrow> display el \<noteq> ''none'')"

definition visible_sections :: "state \<Rightarrow> string list" where
  "visible_sections s =
     filter (\<lambda>k. visible k s)
       [''.upload-section'', ''processingSection'', ''resultsSection'', ''errorSection'']"

definition result_sections :: "state \<Rightarrow> string list" where
  "result_sections s =
     filter (\<lambda>k. visible k s) [''processingSection'', ''resultsSection'', ''errorSection'']"


section \<open>Notions for the statements\<close>

text \<open>One step from \<open>s\<close> to \<open>s'\<close> leaves the processing, results and error sections
  as they show, or leaves at most one of them showing; and it does not hide the upload area.\<close>

definition sections_step :: "state \<Rightarrow> state \<Rightarrow> bool" where
  "sections_step s s' =
     ((result_sections s' = result_sections s \<or> length (result_sections s') \<le> 1) \<and>
      (visible ''.upload-section'' s \<longrightarrow> visible ''.upload-section'' s'))"

text \<open>The identifiers that the upload responses among the events bring.\<close>

fun answer :: "event \<Rightarrow> string list" where
  "answer (UploadSettled (Resolved d) ev) =
     (if success d then (case document_id d of None \<Rightarrow> [] | Some x \<Rightarrow> [x]) else [])"
| "answer _ = []"

definition answers :: "event list \<Rightarrow> string list" where
  "answers es = concat (map answer es)"

text \<open>At most the chart that the global names is alive, and its name is not the next one.\<close>

definition chart_inv :: "state \<Rightarrow> bool" where
  "chart_inv s =
     (case typeChart s of
        None \<Rightarrow> charts s = []
      | Some c \<Rightarrow> map fst (charts s) = [c] \<and> c < next_chart s)"


section \<open>A page to run the script on\<close>

definition blank :: element where
  "blank = \<lparr>display = '''', width = '''', content = Html '''', val = '''', disabled = False,
             classList = []\<rparr>"

definition hidden :: element where
  "hidden = blank\<lparr>display := ''none''\<rparr>"

text \<open>A page that has every element the script looks up, in the state the workflow
  starts from: the upload area shows, the three other sections are hidden, and the
  globals are \<open>null\<close> as the script initialises them.\<close>

definition page :: state where
  "page =
     \<lparr>currentDocumentId = None, typeChart = None, charts = [], next_chart = 0,
      document = map_of
        [(''.upload-section'', blank), (''uploadArea'', blank), (''fileInput'', blank),
         (''browseBtn'', blank), (''processingSection'', hidden), (''resultsSection'', hidden),
         (''errorSection'', hidden), (''errorMessage'', blank), (''progressBar'', blank),
         (''processingStatus'', blank), (''progressContainer'', hidden),
         (''documentType'', blank), (''confidence'', blank), (''routedTo'', blank),
         (''extractedText'', blank), (''manualClassification'', blank),
         (''reclassifyBtn'', hidden), (''typeChart'', blank), (''chat-input'', blank),
         (''chat-messages'', blank)],
      requests = [], timers = []\<rparr>"

text \<open>The page while the document \<open>A\<close> is the current one.\<close>

definition page_A :: state where
  "page_A = page\<lparr>currentDocumentId := Some ''A''\<rparr>"

text \<open>The page with a message typed into the chat input.\<close>

definition page_chat :: state where
  "page_chat = page\<lparr>document := (document page)(''chat-input'' \<mapsto> blank\<lparr>val := ''  hi ''\<rparr>)\<rparr>"

text \<open>Files and responses.\<close>

definition pdf :: js_file where
  "pdf = \<lparr>name = ''a.pdf'', type = ''application/pdf'', size = 1000\<rparr>"

definition plain_text :: js_file where
  "plain_text = \<lparr>name = ''notes.txt'', type = ''text/plain'', size = 12\<rparr>"

definition big_text :: js_file where
  "big_text = \<lparr>name = ''dump.txt'', type = ''text/plain'', size = 17 * 1024 * 1024\<rparr>"

definition big_pdf :: js_file where
  "big_pdf = \<lparr>name = ''scan.pdf'', type = ''application/pdf'', size = 16 * 1024 * 1024 + 1\<rparr>"

definition full_pdf :: js_file where
  "full_pdf = \<lparr>name = ''scan.pdf'', type = ''application/pdf'', size = 16 * 1024 * 1024\<rparr>"

definition upload_ok :: "string \<Rightarrow> upload_response" where
  "upload_ok x = \<lparr>success = True, error = None, document_id = Some x\<rparr>"

definition upload_failed :: upload_response where
  "upload_failed = \<lparr>success = False, error = Some ''No file selected'', document_id = None\<rparr>"

definition process_ok :: "number \<Rightarrow> process_response" where
  "process_ok x =
     \<lparr>success = True, error = None,
      classification = Some \<lparr>ctype = Some ''Invoice'', confidence = Some x\<rparr>,
      routing = Some \<lparr>department = Some ''Accounting''\<rparr>,
      extracted_text = Some ''Invoice 42''\<rparr>"

definition process_bare :: process_response where
  "process_bare =
     \<lparr>success = True, error = None, classification = None, routing = None, extracted_text = None\<rparr>"


section \<open>Elementary facts\<close>

lemma document_upd_elem:
  "document (upd_elem k f s) = (document s)(k := map_option f (document s k))"
  by (auto simp: upd_elem_def split: option.splits)

lemma upd_elem_fields:
  "requests (upd_elem k f s) = requests s"
  "currentDocumentId (upd_elem k f s) = currentDocumentId s"
  "timers (upd_elem k f s) = timers s"
  "charts (upd_elem k f s) = charts s"
  "typeChart (upd_elem k f s) = typeChart s"
  by (simp_all add: upd_elem_def split: option.splits)

lemma hideAllSections_fields:
  "requests (hideAllSections s) = requests s"
  "currentDocumentId (hideAllSections s) = currentDocumentId s"
  "timers (hideAllSections s) = timers s"
  by (simp_all add: hideAllSections_def upd_elem_fields)

lemma showError_fields:
  "requests (showError m s) = requests s"
  "currentDocumentId (showError m s) = currentDocumentId s"
  "timers (showError m s) = timers s"
  by (simp_all add: showError_def hideAllSections_fields upd_elem_fields Let_def split: option.splits)

lemma updateProgress_fields:
  "requests (updateProgress n m s) = requests s"
  "currentDocumentId (updateProgress n m s) = currentDocumentId s"
  "timers (updateProgress n m s) = timers s"
  by (simp_all add: updateProgress_def upd_elem_fields)

lemma showError_panel:
  assumes "document s ''errorSection'' = Some es" and "document s ''errorMessage'' = Some em"
  shows "document (showError m s) ''errorSection'' = Some (es\<lparr>display := ''block''\<rparr>)"
    and "document (showError m s) ''errorMessage'' = Some (em\<lparr>content := Text m\<rparr>)"
  using assms
  by (simp_all add: showError_def hideAllSections_def document_upd_elem Let_def)

lemma uploadFile_request:
  assumes "document s ''processingSection'' \<noteq> None"
  shows "\<exists>s'. uploadFile f s = Done s' \<and>
           requests s' = requests s @
             [\<lparr>url = ''/upload'', http_method = ''POST'', headers = [], body = FormData [(''file'', f)]\<rparr>]"
  using assms
  by (auto simp: uploadFile_def seq_def req_elem_def fetch_def updateProgress_fields
      hideAllSections_def upd_elem_fields document_upd_elem split: option.splits)

lemma page_lookup:
  "document page ''errorSection'' = Some hidden"
  "document page ''errorMessage'' = Some blank"
  "document page ''processingSection'' = Some hidden"
  "document page ''resultsSection'' = Some hidden"
  by (simp_all add: page_def)

lemma page_fields:
  "requests page = []" "timers page = []" "currentDocumentId page = None"
  "typeChart page = None" "charts page = []"
  by (simp_all add: page_def)


section \<open>Validation of the chosen file\<close>

text \<open>
  C1. A file whose MIME type is not in \<open>allowedTypes\<close> makes \<open>handleFile\<close> return
  without issuing a request, and on a page that has the error section and its
  message element the section is shown with the type-rejection message.
\<close>

theorem handleFile_rejects_type:
  assumes "type f \<notin> set allowedTypes"
  shows "\<exists>s'. handleFile f s = Done s' \<and> requests s' = requests s \<and>
           (\<forall>es em. document s ''errorSection'' = Some es \<and> document s ''errorMessage'' = Some em \<longrightarrow>
              document s' ''errorSection'' = Some (es\<lparr>display := ''block''\<rparr>) \<and>
              document s' ''errorMessage'' =
                Some (em\<lparr>content := Text ''Invalid file type. Please upload PDF, DOCX, JPG, or PNG files.''\<rparr>))"
  using assms by (simp add: handleFile_def showError_fields showError_panel)

theorem handleFile_rejects_type_witness:
  "type plain_text \<notin> set allowedTypes \<and>
   requests (state_of (handleFile plain_text page)) = [] \<and>
   map_option display (document (state_of (handleFile plain_text page)) ''errorSection'') = Some ''block'' \<and>
   map_option content (document (state_of (handleFile plain_text page)) ''errorMessage'') =
     Some (Text ''Invalid file type. Please upload PDF, DOCX, JPG, or PNG files.'')"
proof -
  have t: "type plain_text \<notin> set allowedTypes"
    by (simp add: plain_text_def allowedTypes_def)
  from handleFile_rejects_type [OF t, of page] page_lookup(1,2) page_fields(1) t show ?thesis
    by auto
qed

text \<open>
  C2, as stated: every file above 16 MiB gets the size-rejection message. The type
  is checked first, so a file of a type that is not allowed gets the type-rejection
  message whatever its size.
\<close>

theorem handleFile_size_counterexample:
  "16 * 1024 * 1024 < size big_text \<and>
   map_option content (document (state_of (handleFile big_text page)) ''errorMessage'') =
     Some (Text ''Invalid file type. Please upload PDF, DOCX, JPG, or PNG files.'') \<and>
   map_option content (document (state_of (handleFile big_text page)) ''errorMessage'') \<noteq>
     Some (Text ''File too large. Maximum size is 16MB.'')"
proof -
  have "type big_text \<notin> set allowedTypes"
    by (simp add: big_text_def allowedTypes_def)
  then have "handleFile big_text page =
      Done (showError ''Invalid file type. Please upload PDF, DOCX, JPG, or PNG files.'' page)"
    by (simp add: handleFile_def)
  then show ?thesis
    by (simp add: showError_panel(2) [OF page_lookup(1) page_lookup(2)] big_text_def)
qed

text \<open>
  C2, amended. A file above 16 MiB never causes a request, and when its type is
  allowed the error section shows the size-rejection message. A file of an allowed
  type of at most 16 MiB passes validation, and on a page that has the processing
  section the upload request is issued: a POST of the file to \<^verbatim>\<open>/upload\<close>.
\<close>

theorem handleFile_size:
  "(16 * 1024 * 1024 < size f \<longrightarrow>
      (\<exists>s'. handleFile f s = Done s' \<and> requests s' = requests s \<and>
         (type f \<in> set allowedTypes \<longrightarrow>
            (\<forall>es em. document s ''errorSection'' = Some es \<and> document s ''errorMessage'' = Some em \<longrightarrow>
               document s' ''errorSection'' = Some (es\<lparr>display := ''block''\<rparr>) \<and>
               document s' ''errorMessage'' =
                 Some (em\<lparr>content := Text ''File too large. Maximum size is 16MB.''\<rparr>))))) \<and>
   (type f \<in> set allowedTypes \<and> size f \<le> 16 * 1024 * 1024 \<and>
    document s ''processingSection'' \<noteq> None \<longrightarrow>
      (\<exists>s'. handleFile f s = Done s' \<and>
         requests s' = requests s @
           [\<lparr>url = ''/upload'', http_method = ''POST'', headers = [], body = FormData [(''file'', f)]\<rparr>]))"
proof (intro conjI impI)
  assume "16 * 1024 * 1024 < size f"
  then show "\<exists>s'. handleFile f s = Done s' \<and> requests s' = requests s \<and>
         (type f \<in> set allowedTypes \<longrightarrow>
            (\<forall>es em. document s ''errorSection'' = Some es \<and> document s ''errorMessage'' = Some em \<longrightarrow>
               document s' ''errorSection'' = Some (es\<lparr>display := ''block''\<rparr>) \<and>
               document s' ''errorMessage'' =
                 Some (em\<lparr>content := Text ''File too large. Maximum size is 16MB.''\<rparr>)))"
    by (simp add: handleFile_def showError_fields showError_panel)
next
  assume a: "type f \<in> set allowedTypes \<and> size f \<le> 16 * 1024 * 1024 \<and>
    document s ''processingSection'' \<noteq> None"
  then have "handleFile f s = uploadFile f s"
    by (simp add: handleFile_def)
  with a uploadFile_request [of s f] show "\<exists>s'. handleFile f s = Done s' \<and>
         requests s' = requests s @
           [\<lparr>url = ''/upload'', http_method = ''POST'', headers = [], body = FormData [(''file'', f)]\<rparr>]"
    by simp
qed

theorem handleFile_size_witness:
  "16 * 1024 * 1024 < size big_pdf \<and> type big_pdf \<in> set allowedTypes \<and>
   requests (state_of (handleFile big_pdf page)) = [] \<and>
   map_option content (document (state_of (handleFile big_pdf page)) ''errorMessage'') =
     Some (Text ''File too large. Maximum size is 16MB.'') \<and>
   size full_pdf \<le> 16 * 1024 * 1024 \<and> type full_pdf \<in> set allowedTypes \<and>
   document page ''processingSection'' \<noteq> None \<and>
   requests (state_of (handleFile full_pdf page)) =
     [\<lparr>url = ''/upload'', http_method = ''POST'', headers = [], body = FormData [(''file'', full_pdf)]\<rparr>]"
proof -
  have b: "16 * 1024 * 1024 < size big_pdf" "type big_pdf \<in> set allowedTypes"
    by (simp_all add: big_pdf_def allowedTypes_def)
  have f: "size full_pdf \<le> 16 * 1024 * 1024" "type full_pdf \<in> set allowedTypes"
    by (simp_all add: full_pdf_def allowedTypes_def)
  have p: "document page ''processingSection'' \<noteq> None"
    by (simp add: page_lookup)
  from handleFile_size [of big_pdf page] handleFile_size [of full_pdf page] b f p
    page_lookup(1,2) page_fields(1)
  show ?thesis by auto
qed

section \<open>From the upload to the processing request\<close>

lemma processDocument_currentDocumentId:
  "currentDocumentId (state_of (processDocument x ev s)) = currentDocumentId s"
  by (simp add: processDocument_def seq_def showError_fields fetch_def updateProgress_fields
      upd_elem_fields split: option.splits)

lemma processDocument_request:
  assumes "x \<noteq> []" and "\<forall>e. ev = Some e \<longrightarrow> closest_button e \<noteq> None"
  shows "\<exists>s'. processDocument (Some x) ev s = Done s' \<and>
           requests s' = requests s @
             [\<lparr>url = ''/process/'' @ x, http_method = ''POST'', headers = [], body = NoBody\<rparr>]"
  using assms
  by (auto simp: processDocument_def seq_def fetch_def updateProgress_fields upd_elem_fields
      split: option.splits)

text \<open>
  C3, amended. When the upload answers with success and the identifier \<open>x\<close>, the
  script stores \<open>x\<close> as the current document reference. When \<open>x\<close> is not the
  empty string (and, if an event is current, its target lies in a button), the next
  request is a POST to \<^verbatim>\<open>/process/\<close> followed by \<open>x\<close>.
\<close>

theorem upload_success_process_request:
  assumes "success d" and "document_id d = Some x"
  shows "currentDocumentId (state_of (uploadFile_settled (Resolved d) ev s)) = Some x \<and>
         (x \<noteq> [] \<and> (\<forall>e. ev = Some e \<longrightarrow> closest_button e \<noteq> None) \<longrightarrow>
            requests (state_of (uploadFile_settled (Resolved d) ev s)) = requests s @
              [\<lparr>url = ''/process/'' @ x, http_method = ''POST'', headers = [], body = NoBody\<rparr>])"
proof -
  let ?s2 = "updateProgress 30 ''File uploaded successfully. Starting processing...''
               (s\<lparr>currentDocumentId := Some x\<rparr>)"
  have t: "uploadFile_then d ev s = processDocument (Some x) ev ?s2"
    using assms by (simp add: uploadFile_then_def Let_def updateProgress_fields)
  have c: "currentDocumentId (state_of (catch (processDocument (Some x) ev ?s2) uploadFile_catch)) = Some x"
    using processDocument_currentDocumentId [of "Some x" ev ?s2]
    by (cases "processDocument (Some x) ev ?s2")
      (simp_all add: catch_def uploadFile_catch_def showError_fields updateProgress_fields)
  have r: "requests (state_of (catch (processDocument (Some x) ev ?s2) uploadFile_catch)) = requests s @
        [\<lparr>url = ''/process/'' @ x, http_method = ''POST'', headers = [], body = NoBody\<rparr>]"
    if "x \<noteq> []" "\<forall>e. ev = Some e \<longrightarrow> closest_button e \<noteq> None"
    using processDocument_request [OF that, of ?s2]
    by (auto simp: catch_def updateProgress_fields)
  from t c r show ?thesis
    by (simp add: uploadFile_settled_def)
qed

text \<open>
  C3, as stated, for every string: the empty identifier is stored, but
  \<open>processDocument\<close> finds it falsy, shows an error and sends nothing.
\<close>

theorem upload_success_process_request_counterexample:
  "success (upload_ok '''') \<and> document_id (upload_ok '''') = Some '''' \<and>
   requests (state_of (uploadFile_settled (Resolved (upload_ok '''')) None page)) = [] \<and>
   map_option content
     (document (state_of (uploadFile_settled (Resolved (upload_ok '''')) None page)) ''errorMessage'') =
     Some (Text ''No document ID provided'')"
proof -
  let ?s2 = "updateProgress 30 ''File uploaded successfully. Starting processing...''
               (page\<lparr>currentDocumentId := Some ''''\<rparr>)"
  have d: "document ?s2 ''errorSection'' = Some hidden" "document ?s2 ''errorMessage'' = Some blank"
    by (simp_all add: updateProgress_def document_upd_elem page_lookup)
  have "uploadFile_settled (Resolved (upload_ok '''')) None page =
      Done (showError ''No document ID provided'' ?s2)"
    by (simp add: uploadFile_settled_def uploadFile_then_def upload_ok_def Let_def
        updateProgress_fields processDocument_def catch_def)
  then show ?thesis
    by (simp add: showError_fields updateProgress_fields page_fields showError_panel(2) [OF d]
        upload_ok_def blank_def)
qed

theorem upload_success_process_request_witness:
  "success (upload_ok ''X'') \<and> document_id (upload_ok ''X'') = Some ''X'' \<and>
   currentDocumentId (state_of (uploadFile_settled (Resolved (upload_ok ''X'')) None page)) = Some ''X'' \<and>
   requests (state_of (uploadFile_settled (Resolved (upload_ok ''X'')) None page)) =
     [\<lparr>url = ''/process/X'', http_method = ''POST'', headers = [], body = NoBody\<rparr>]"
  using upload_success_process_request [of "upload_ok ''X''" "''X''" None page]
  by (simp add: upload_ok_def page_fields)

section \<open>The stored document reference\<close>

lemma req_elem_fields:
  "requests (state_of (req_elem k f s)) = requests s"
  "currentDocumentId (state_of (req_elem k f s)) = currentDocumentId s"
  "timers (state_of (req_elem k f s)) = timers s"
  by (simp_all add: req_elem_def split: option.splits)

lemma state_of_seq:
  "state_of (seq r f) = (case r of Done s \<Rightarrow> state_of (f s) | Threw e s \<Rightarrow> s)"
  by (simp add: seq_def split: outcome.splits)

lemma uploadFile_fields:
  "currentDocumentId (state_of (uploadFile f s)) = currentDocumentId s"
  "timers (state_of (uploadFile f s)) = timers s"
  by (simp_all add: uploadFile_def seq_def req_elem_def fetch_def updateProgress_fields
      hideAllSections_fields split: option.splits)

lemma uploadFile_requests:
  "requests (state_of (uploadFile f s)) = requests s \<or>
   requests (state_of (uploadFile f s)) = requests s @
     [\<lparr>url = ''/upload'', http_method = ''POST'', headers = [], body = FormData [(''file'', f)]\<rparr>]"
  by (simp add: uploadFile_def seq_def req_elem_def fetch_def updateProgress_fields
      hideAllSections_fields split: option.splits)

lemma handleFile_currentDocumentId:
  "currentDocumentId (state_of (handleFile f s)) = currentDocumentId s"
  by (simp add: handleFile_def showError_fields uploadFile_fields)

lemma handleFile_requests:
  "requests (state_of (handleFile f s)) = requests s \<or>
   requests (state_of (handleFile f s)) = requests s @
     [\<lparr>url = ''/upload'', http_method = ''POST'', headers = [], body = FormData [(''file'', f)]\<rparr>]"
  using uploadFile_requests [of f s] by (simp add: handleFile_def showError_fields)

lemma uploadFile_settled_currentDocumentId:
  "currentDocumentId (state_of (uploadFile_settled r ev s)) =
     (case r of Rejected e \<Rightarrow> currentDocumentId s
      | Resolved d \<Rightarrow> if success d then document_id d else currentDocumentId s)"
proof (cases r)
  case (Rejected e)
  then show ?thesis
    by (simp add: uploadFile_settled_def uploadFile_catch_def showError_fields)
next
  case (Resolved d)
  let ?s2 = "updateProgress 30 ''File uploaded successfully. Starting processing...''
               (s\<lparr>currentDocumentId := document_id d\<rparr>)"
  show ?thesis
  proof (cases "success d")
    case True
    then have t: "uploadFile_then d ev s = processDocument (document_id d) ev ?s2"
      by (simp add: uploadFile_then_def Let_def updateProgress_fields)
    have "currentDocumentId (state_of (catch (processDocument (document_id d) ev ?s2) uploadFile_catch))
        = document_id d"
      using processDocument_currentDocumentId [of "document_id d" ev ?s2]
      by (cases "processDocument (document_id d) ev ?s2")
        (simp_all add: catch_def uploadFile_catch_def showError_fields updateProgress_fields)
    with t True Resolved show ?thesis
      by (simp add: uploadFile_settled_def)
  next
    case False
    with Resolved show ?thesis
      by (simp add: uploadFile_settled_def uploadFile_then_def catch_def uploadFile_catch_def
          showError_fields)
  qed
qed

lemma resetUploadForm_fields:
  "currentDocumentId (resetUploadForm s) = None"
  "requests (resetUploadForm s) = requests s"
  "timers (resetUploadForm s) = timers s"
  by (simp_all add: resetUploadForm_def Let_def upd_elem_fields hideAllSections_fields)

text \<open>
  C7, as stated: every upload attempt replaces the stored reference. An attempt that
  the server refuses leaves the reference of the earlier upload in place.
\<close>

theorem document_reference_counterexample:
  "currentDocumentId
     (run [Change [pdf], UploadSettled (Resolved (upload_ok ''A'')) None,
           Change [pdf], UploadSettled (Resolved upload_failed) None] page) = Some ''A''"
  by (simp add: run_def handleFileSelect_def handleFile_currentDocumentId
      uploadFile_settled_currentDocumentId upload_ok_def upload_failed_def)

text \<open>
  C7, amended. A settled upload overwrites the stored reference with the identifier
  of the response when the response reports success, and leaves it as it was when
  the response reports failure or the fetch is rejected; validating and sending a
  file does not touch it; a reset clears it.
\<close>

theorem document_reference:
  "currentDocumentId (state_of (uploadFile_settled (Resolved d) ev s)) =
     (if success d then document_id d else currentDocumentId s) \<and>
   currentDocumentId (state_of (uploadFile_settled (Rejected e) ev s)) = currentDocumentId s \<and>
   currentDocumentId (state_of (handleFile f s)) = currentDocumentId s \<and>
   currentDocumentId (resetUploadForm s) = None"
  by (simp add: uploadFile_settled_currentDocumentId handleFile_currentDocumentId
      resetUploadForm_fields)

section \<open>Which sections show\<close>

lemma visible_upd_elem:
  "visible k (upd_elem k' f s) =
     (if k = k' then (case document s k of None \<Rightarrow> False | Some el \<Rightarrow> display (f el) \<noteq> ''none'')
      else visible k s)"
  by (simp add: visible_def document_upd_elem split: option.splits)

lemma visible_keep:
  assumes "\<And>el. display (f el) = display el"
  shows "visible k (upd_elem k' f s) = visible k s"
  by (auto simp: visible_def document_upd_elem assms split: option.splits)

lemma visible_has: "visible k s \<Longrightarrow> document s k \<noteq> None"
  by (auto simp: visible_def split: option.splits)

lemma visible_fields:
  "visible k (s\<lparr>currentDocumentId := x\<rparr>) = visible k s"
  "visible k (s\<lparr>timers := t\<rparr>) = visible k s"
  "visible k (fetch q s) = visible k s"
  "visible k (setTimeout c n s) = visible k s"
  by (simp_all add: visible_def fetch_def setTimeout_def)

lemma hideAllSections_sections:
  "\<not> visible ''processingSection'' (hideAllSections s)"
  "\<not> visible ''resultsSection'' (hideAllSections s)"
  "\<not> visible ''errorSection'' (hideAllSections s)"
  "visible ''.upload-section'' (hideAllSections s) = visible ''.upload-section'' s"
  by (simp_all add: hideAllSections_def visible_upd_elem split: option.splits)

lemma showError_sections:
  "\<not> visible ''processingSection'' (showError m s)"
  "\<not> visible ''resultsSection'' (showError m s)"
  "visible ''errorSection'' (showError m s) = (document s ''errorSection'' \<noteq> None)"
  "visible ''.upload-section'' (showError m s) = visible ''.upload-section'' s"
  by (auto simp: showError_def Let_def visible_upd_elem hideAllSections_sections
      hideAllSections_def document_upd_elem split: option.splits)

lemma updateProgress_sections:
  "visible ''processingSection'' (updateProgress n m s) = visible ''processingSection'' s"
  "visible ''resultsSection'' (updateProgress n m s) = visible ''resultsSection'' s"
  "visible ''errorSection'' (updateProgress n m s) = visible ''errorSection'' s"
  "visible ''.upload-section'' (updateProgress n m s) = visible ''.upload-section'' s"
  by (simp_all add: updateProgress_def visible_upd_elem)

lemma resetUploadForm_sections:
  "\<not> visible ''processingSection'' (resetUploadForm s)"
  "\<not> visible ''resultsSection'' (resetUploadForm s)"
  "\<not> visible ''errorSection'' (resetUploadForm s)"
  "visible ''.upload-section'' (resetUploadForm s) = (document s ''.upload-section'' \<noteq> None)"
  by (auto simp: resetUploadForm_def Let_def visible_def document_upd_elem hideAllSections_def
      split: option.splits)

lemma uploadFile_sections:
  "visible ''processingSection'' (state_of (uploadFile f s)) = (document s ''processingSection'' \<noteq> None)"
  "\<not> visible ''resultsSection'' (state_of (uploadFile f s))"
  "\<not> visible ''errorSection'' (state_of (uploadFile f s))"
  "visible ''.upload-section'' (state_of (uploadFile f s)) = visible ''.upload-section'' s"
  by (auto simp: uploadFile_def seq_def req_elem_def fetch_def visible_def updateProgress_def
      document_upd_elem hideAllSections_def split: option.splits)

lemma showResults_sections:
  "\<not> visible ''processingSection'' (state_of (showResults d s))"
  "visible ''resultsSection'' (state_of (showResults d s)) = (document s ''resultsSection'' \<noteq> None)"
  "\<not> visible ''errorSection'' (state_of (showResults d s))"
  "visible ''.upload-section'' (state_of (showResults d s)) = visible ''.upload-section'' s"
  by (auto simp: showResults_def seq_def req_elem_def visible_def Let_def
      document_upd_elem hideAllSections_def split: option.splits)

lemma sections_stepI:
  assumes "\<not> visible ''processingSection'' s' \<or> \<not> visible ''resultsSection'' s'"
    and "\<not> visible ''processingSection'' s' \<or> \<not> visible ''errorSection'' s'"
    and "\<not> visible ''resultsSection'' s' \<or> \<not> visible ''errorSection'' s'"
    and "visible ''.upload-section'' s \<longrightarrow> visible ''.upload-section'' s'"
  shows "sections_step s s'"
  using assms by (auto simp: sections_step_def result_sections_def)

lemma sections_step_same:
  assumes "visible ''processingSection'' s' = visible ''processingSection'' s"
    and "visible ''resultsSection'' s' = visible ''resultsSection'' s"
    and "visible ''errorSection'' s' = visible ''errorSection'' s"
    and "visible ''.upload-section'' s \<longrightarrow> visible ''.upload-section'' s'"
  shows "sections_step s s'"
  using assms by (simp add: sections_step_def result_sections_def)

lemma sections_step_trans:
  "sections_step s s' \<Longrightarrow> sections_step s' s'' \<Longrightarrow> sections_step s s''"
  by (auto simp: sections_step_def)

lemma sections_step_showError: "sections_step s (showError m s)"
  by (rule sections_stepI) (simp_all add: showError_sections)

lemma sections_step_handleFile: "sections_step s (state_of (handleFile f s))"
  by (rule sections_stepI)
    (simp_all add: handleFile_def showError_sections uploadFile_sections)

lemma sections_step_keep_display:
  assumes "\<And>el. display (f el) = display el"
  shows "sections_step s (upd_elem k f s)"
  by (rule sections_step_same) (simp_all add: visible_keep assms)

lemma sections_step_updateProgress: "sections_step s (updateProgress n m s)"
  by (rule sections_step_same) (simp_all add: updateProgress_sections)

lemma sections_step_handleDrop: "sections_step s (state_of (handleDrop files s))"
proof (cases "document s ''uploadArea''")
  case None
  then have "state_of (handleDrop files s) = s"
    by (simp add: handleDrop_def seq_def req_elem_def)
  then show ?thesis by (simp add: sections_step_def)
next
  case (Some el)
  let ?s1 = "upd_elem ''uploadArea'' (\<lambda>el. el\<lparr>classList := removeAll ''drag-over'' (classList el)\<rparr>) s"
  have 1: "sections_step s ?s1"
    by (rule sections_step_keep_display) simp
  have "state_of (handleDrop files s) = ?s1 \<or> state_of (handleDrop files s) = state_of (handleFile (files ! 0) ?s1)"
    using Some by (simp add: handleDrop_def seq_def req_elem_def upd_elem_def)
  with 1 sections_step_handleFile [of ?s1 "files ! 0"] show ?thesis
    by (auto intro: sections_step_trans)
qed

lemma sections_step_processDocument: "sections_step s (state_of (catch (processDocument x ev s) uploadFile_catch))"
proof -
  have k: "sections_step s (upd_elem b (\<lambda>el. el\<lparr>disabled := True, content := Html spinner\<rparr>) s)" for b
    by (rule sections_step_keep_display) simp
  have f: "sections_step t (fetch q (updateProgress n m t))" for t q n m
    by (rule sections_step_same) (simp_all add: visible_fields updateProgress_sections)
  have kf: "sections_step s (fetch q (updateProgress n m
      (upd_elem b (\<lambda>el. el\<lparr>disabled := True, content := Html spinner\<rparr>) s)))" for b q n m
    using k [of b] f by (rule sections_step_trans)
  show ?thesis
    using f kf
    by (auto simp: processDocument_def seq_def catch_def uploadFile_catch_def
        sections_step_showError split: option.splits)
qed

lemma sections_step_uploadFile_settled: "sections_step s (state_of (uploadFile_settled r ev s))"
proof (cases r)
  case (Rejected e)
  then show ?thesis
    by (simp add: uploadFile_settled_def uploadFile_catch_def sections_step_showError)
next
  case (Resolved d)
  let ?s2 = "updateProgress 30 ''File uploaded successfully. Starting processing...''
               (s\<lparr>currentDocumentId := document_id d\<rparr>)"
  have 1: "sections_step s ?s2"
    by (rule sections_step_same)
      (simp_all add: updateProgress_sections visible_fields)
  show ?thesis
  proof (cases "success d")
    case True
    then have "uploadFile_then d ev s = processDocument (document_id d) ev ?s2"
      by (simp add: uploadFile_then_def Let_def updateProgress_fields)
    with Resolved 1 sections_step_processDocument [of ?s2 "document_id d" ev] show ?thesis
      by (auto simp: uploadFile_settled_def intro: sections_step_trans)
  next
    case False
    with Resolved show ?thesis
      by (simp add: uploadFile_settled_def uploadFile_then_def catch_def uploadFile_catch_def
          sections_step_showError)
  qed
qed

lemma sections_step_processDocument_settled:
  "sections_step s (state_of (processDocument_settled r s))"
proof -
  have "sections_step s (setTimeout c n (updateProgress p m s))" for c n p m
    by (rule sections_step_same)
      (simp_all add: visible_fields updateProgress_sections)
  then show ?thesis
    by (auto simp: processDocument_settled_def processDocument_then_def processDocument_catch_def
        catch_def sections_step_showError split: settled.splits)
qed

lemma sections_step_Timeout: "sections_step s (step (Timeout i) s)"
proof (cases "i < length (timers s)")
  case False
  then show ?thesis by (simp add: sections_step_def)
next
  case True
  let ?s1 = "s\<lparr>timers := take i (timers s) @ drop (Suc i) (timers s)\<rparr>"
  obtain d where c: "snd (timers s ! i) = ProcessComplete d"
    by (cases "snd (timers s ! i)") auto
  have "sections_step s (state_of (showResults d (updateProgress 100 ''Processing complete!'' ?s1)))"
    by (rule sections_stepI)
      (simp_all add: showResults_sections updateProgress_sections visible_fields)
  with True c show ?thesis by simp
qed

lemma sections_step_step: "sections_step s (step e s)"
proof (cases e)
  case (Change files)
  then show ?thesis
    using sections_step_handleFile
    by (cases files) (simp_all add: handleFileSelect_def sections_step_def)
next
  case (Drop files)
  then show ?thesis by (simp add: sections_step_handleDrop)
next
  case (UploadSettled r ev)
  then show ?thesis by (simp add: sections_step_uploadFile_settled)
next
  case (ProcessSettled r)
  then show ?thesis by (simp add: sections_step_processDocument_settled)
next
  case (Timeout i)
  then show ?thesis using sections_step_Timeout [of s i] by simp
next
  case Reset
  have "sections_step s (resetUploadForm s)"
    by (rule sections_stepI) (simp_all add: resetUploadForm_sections visible_has)
  with Reset show ?thesis by simp
qed

lemma sections_step_run: "sections_step s (run es s)"
proof (induction es arbitrary: s)
  case Nil
  then show ?case by (simp add: run_def sections_step_def)
next
  case (Cons e es)
  have "run (e # es) s = run es (step e s)"
    by (simp add: run_def)
  with Cons [of "step e s"] sections_step_step [of s e] show ?case
    by (auto intro: sections_step_trans)
qed

section \<open>The sections over a run of the workflow\<close>

lemma has_upd_elem:
  "(document (upd_elem k' f s) k = None) = (document s k = None)"
  by (simp add: document_upd_elem)

lemma resetUploadForm_has:
  "(document (resetUploadForm s) k = None) = (document s k = None)"
  by (simp add: resetUploadForm_def Let_def hideAllSections_def has_upd_elem)

lemma page_upload_section: "document page ''.upload-section'' = Some blank"
  by (simp add: page_def)

lemma pdf_valid: "type pdf \<in> set allowedTypes" "size pdf \<le> 16 * 1024 * 1024"
  by (simp_all add: pdf_def allowedTypes_def)

text \<open>
  C5, as stated: exactly one of the four sections shows at any time. Nothing in
  the script hides the upload area, so once a valid file is chosen the upload area
  and the processing section both show.
\<close>

theorem one_section_visible_counterexample:
  "visible_sections (run [Reset, Change [pdf]] page) = [''.upload-section'', ''processingSection'']"
proof -
  let ?s1 = "resetUploadForm page"
  have h: "handleFile pdf ?s1 = uploadFile pdf ?s1"
    using pdf_valid by (simp add: handleFile_def)
  have "document ?s1 ''processingSection'' \<noteq> None"
    by (simp add: resetUploadForm_has page_lookup)
  moreover have "visible ''.upload-section'' ?s1"
    by (simp add: resetUploadForm_sections page_upload_section)
  ultimately show ?thesis
    by (simp add: run_def handleFileSelect_def h visible_sections_def uploadFile_sections)
qed

text \<open>
  C5, amended. Of the processing, results and error sections at most one shows
  after any sequence of events of the workflow, if at most one showed before; and
  the upload area, once it shows, keeps showing (only a reset writes its display,
  and sets it to \<^verbatim>\<open>block\<close>).
\<close>

theorem one_result_section_visible:
  assumes "length (result_sections s) \<le> 1"
  shows "length (result_sections (run es s)) \<le> 1 \<and>
         (visible ''.upload-section'' s \<longrightarrow> visible ''.upload-section'' (run es s))"
  using assms sections_step_run [of s es] by (auto simp: sections_step_def)

theorem one_result_section_visible_witness:
  "length (result_sections page) \<le> 1 \<and> visible ''.upload-section'' page \<and>
   length (result_sections (run [Reset, Change [pdf]] page)) \<le> 1 \<and>
   visible ''.upload-section'' (run [Reset, Change [pdf]] page)"
proof -
  have 1: "length (result_sections page) \<le> 1"
    by (simp add: result_sections_def visible_def page_lookup hidden_def)
  have 2: "visible ''.upload-section'' page"
    by (simp add: visible_def page_upload_section blank_def)
  from one_result_section_visible [OF 1, of "[Reset, Change [pdf]]"] 1 2 show ?thesis
    by simp
qed

section \<open>Resetting the form\<close>

lemma showResults_fields:
  "requests (state_of (showResults d s)) = requests s"
  "currentDocumentId (state_of (showResults d s)) = currentDocumentId s"
  by (simp_all add: showResults_def Let_def seq_def req_elem_def upd_elem_fields
      hideAllSections_fields split: option.splits)

lemma processDocument_settled_requests:
  "requests (state_of (processDocument_settled r s)) = requests s"
  by (simp add: processDocument_settled_def processDocument_then_def processDocument_catch_def
      catch_def showError_fields setTimeout_def updateProgress_fields split: settled.splits)

lemma processDocument_requests:
  "requests (state_of (catch (processDocument y ev s) uploadFile_catch)) = requests s \<or>
   (\<exists>x. y = Some x \<and> requests (state_of (catch (processDocument y ev s) uploadFile_catch)) =
      requests s @ [\<lparr>url = ''/process/'' @ x, http_method = ''POST'', headers = [], body = NoBody\<rparr>])"
  by (simp add: processDocument_def seq_def catch_def uploadFile_catch_def showError_fields
      fetch_def updateProgress_fields upd_elem_fields split: option.splits)

lemma uploadFile_settled_requests:
  "requests (state_of (uploadFile_settled r ev s)) = requests s \<or>
   (\<exists>d x. r = Resolved d \<and> success d \<and> document_id d = Some x \<and>
      requests (state_of (uploadFile_settled r ev s)) =
        requests s @ [\<lparr>url = ''/process/'' @ x, http_method = ''POST'', headers = [], body = NoBody\<rparr>])"
proof (cases r)
  case (Rejected e)
  then show ?thesis
    by (simp add: uploadFile_settled_def uploadFile_catch_def showError_fields)
next
  case (Resolved d)
  let ?s2 = "updateProgress 30 ''File uploaded successfully. Starting processing...''
               (s\<lparr>currentDocumentId := document_id d\<rparr>)"
  show ?thesis
  proof (cases "success d")
    case True
    then have "uploadFile_then d ev s = processDocument (document_id d) ev ?s2"
      by (simp add: uploadFile_then_def Let_def updateProgress_fields)
    with Resolved True processDocument_requests [of "document_id d" ev ?s2] show ?thesis
      by (auto simp: uploadFile_settled_def updateProgress_fields)
  next
    case False
    with Resolved show ?thesis
      by (simp add: uploadFile_settled_def uploadFile_then_def catch_def uploadFile_catch_def
          showError_fields)
  qed
qed

lemma uploadFile_settled_success_requests:
  assumes "success d" and "document_id d = Some x" and "x \<noteq> []"
    and "\<forall>e. ev = Some e \<longrightarrow> closest_button e \<noteq> None"
  shows "requests (state_of (uploadFile_settled (Resolved d) ev s)) = requests s @
      [\<lparr>url = ''/process/'' @ x, http_method = ''POST'', headers = [], body = NoBody\<rparr>]"
proof -
  let ?s2 = "updateProgress 30 ''File uploaded successfully. Starting processing...''
               (s\<lparr>currentDocumentId := Some x\<rparr>)"
  have "uploadFile_then d ev s = processDocument (Some x) ev ?s2"
    using assms by (simp add: uploadFile_then_def Let_def updateProgress_fields)
  with processDocument_request [OF assms(3,4), of ?s2] show ?thesis
    by (auto simp: uploadFile_settled_def catch_def updateProgress_fields)
qed

lemma handleDrop_requests:
  "requests (state_of (handleDrop files s)) = requests s \<or>
   (\<exists>f. requests (state_of (handleDrop files s)) = requests s @
     [\<lparr>url = ''/upload'', http_method = ''POST'', headers = [], body = FormData [(''file'', f)]\<rparr>])"
proof (cases "document s ''uploadArea''")
  case None
  then show ?thesis by (simp add: handleDrop_def seq_def req_elem_def)
next
  case (Some el)
  let ?s1 = "s\<lparr>document := (document s)(''uploadArea'' \<mapsto>
      el\<lparr>classList := removeAll ''drag-over'' (classList el)\<rparr>)\<rparr>"
  have "state_of (handleDrop files s) = ?s1 \<or>
      state_of (handleDrop files s) = state_of (handleFile (files ! 0) ?s1)"
    using Some by (simp add: handleDrop_def seq_def req_elem_def)
  with handleFile_requests [of "files ! 0" ?s1] show ?thesis
    by auto
qed

lemma step_requests:
  "\<exists>rs. requests (step e s) = requests s @ rs \<and>
     (\<forall>q \<in> set rs. url q = ''/upload'' \<or> url q \<in> (\<lambda>x. ''/process/'' @ x) ` set (answer e))"
proof (cases e)
  case (Change files)
  then show ?thesis
    using handleFile_requests [of "hd files" s]
    by (cases files) (auto simp: handleFileSelect_def)
next
  case (Drop files)
  then show ?thesis using handleDrop_requests [of files s] by auto
next
  case (UploadSettled r ev)
  then show ?thesis using uploadFile_settled_requests [of r ev s] by auto
next
  case (ProcessSettled r)
  then show ?thesis by (simp add: processDocument_settled_requests)
next
  case (Timeout i)
  show ?thesis
  proof (cases "i < length (timers s)")
    case True
    obtain d where "snd (timers s ! i) = ProcessComplete d"
      by (cases "snd (timers s ! i)") auto
    with True Timeout show ?thesis
      by (simp add: showResults_fields updateProgress_fields)
  next
    case False
    with Timeout show ?thesis by simp
  qed
next
  case Reset
  then show ?thesis by (simp add: resetUploadForm_fields)
qed

lemma run_requests:
  "\<exists>rs. requests (run es s) = requests s @ rs \<and>
     (\<forall>q \<in> set rs. url q = ''/upload'' \<or> url q \<in> (\<lambda>x. ''/process/'' @ x) ` set (answers es))"
proof (induction es arbitrary: s)
  case Nil
  then show ?case by (simp add: run_def)
next
  case (Cons e es)
  obtain r1 where 1: "requests (step e s) = requests s @ r1"
    "\<forall>q \<in> set r1. url q = ''/upload'' \<or> url q \<in> (\<lambda>x. ''/process/'' @ x) ` set (answer e)"
    using step_requests [of e s] by blast
  obtain r2 where 2: "requests (run es (step e s)) = requests (step e s) @ r2"
    "\<forall>q \<in> set r2. url q = ''/upload'' \<or> url q \<in> (\<lambda>x. ''/process/'' @ x) ` set (answers es)"
    using Cons [of "step e s"] by blast
  have "run (e # es) s = run es (step e s)"
    by (simp add: run_def)
  with 1 2 have "requests (run (e # es) s) = requests s @ (r1 @ r2)"
    by simp
  moreover from 1 2 have "\<forall>q \<in> set (r1 @ r2). url q = ''/upload'' \<or>
      url q \<in> (\<lambda>x. ''/process/'' @ x) ` set (answers (e # es))"
    by (auto simp: answers_def)
  ultimately show ?case by blast
qed

text \<open>
  C6. A reset clears the stored document reference, hides the processing, results
  and error sections, shows the upload area (so that it is the one section showing)
  and empties the file input, on a page that has these two elements. Whatever
  events follow, every request issued after the reset is an upload or a processing
  request for an identifier that an upload response brought after the reset.
\<close>

theorem resetUploadForm_idle:
  "currentDocumentId (resetUploadForm s) = None \<and>
   result_sections (resetUploadForm s) = [] \<and>
   (document s ''.upload-section'' \<noteq> None \<longrightarrow>
      visible_sections (resetUploadForm s) = [''.upload-section'']) \<and>
   (\<forall>el. document s ''fileInput'' = Some el \<longrightarrow>
      document (resetUploadForm s) ''fileInput'' = Some (el\<lparr>val := ''''\<rparr>)) \<and>
   (\<exists>rs. requests (run es (resetUploadForm s)) = requests s @ rs \<and>
      (\<forall>q \<in> set rs. url q = ''/upload'' \<or> url q \<in> (\<lambda>x. ''/process/'' @ x) ` set (answers es)))"
proof -
  have "\<forall>el. document s ''fileInput'' = Some el \<longrightarrow>
      document (resetUploadForm s) ''fileInput'' = Some (el\<lparr>val := ''''\<rparr>)"
    by (simp add: resetUploadForm_def Let_def hideAllSections_def document_upd_elem)
  moreover have "\<exists>rs. requests (run es (resetUploadForm s)) = requests s @ rs \<and>
      (\<forall>q \<in> set rs. url q = ''/upload'' \<or> url q \<in> (\<lambda>x. ''/process/'' @ x) ` set (answers es))"
    using run_requests [of es "resetUploadForm s"] by (simp add: resetUploadForm_fields)
  ultimately show ?thesis
    by (simp add: resetUploadForm_fields resetUploadForm_sections result_sections_def
        visible_sections_def)
qed

theorem resetUploadForm_idle_witness:
  "currentDocumentId page_A = Some ''A'' \<and>
   document page_A ''.upload-section'' \<noteq> None \<and>
   currentDocumentId (resetUploadForm page_A) = None \<and>
   visible_sections (resetUploadForm page_A) = [''.upload-section''] \<and>
   map_option val (document (resetUploadForm page_A) ''fileInput'') = Some '''' \<and>
   requests (run [UploadSettled (Resolved (upload_ok ''B'')) None] (resetUploadForm page_A)) =
     [\<lparr>url = ''/process/B'', http_method = ''POST'', headers = [], body = NoBody\<rparr>]"
proof -
  have d: "document page_A ''.upload-section'' = Some blank" "document page_A ''fileInput'' = Some blank"
    by (simp_all add: page_A_def page_def)
  have r: "requests (run [UploadSettled (Resolved (upload_ok ''B'')) None] (resetUploadForm page_A)) =
      [\<lparr>url = ''/process/B'', http_method = ''POST'', headers = [], body = NoBody\<rparr>]"
    using uploadFile_settled_success_requests [of "upload_ok ''B''" "''B''" None "resetUploadForm page_A"]
    by (simp add: run_def upload_ok_def resetUploadForm_fields page_A_def page_fields)
  from resetUploadForm_idle [of page_A "[UploadSettled (Resolved (upload_ok ''B'')) None]"] d r
  show ?thesis
    by (simp add: page_A_def blank_def)
qed

section \<open>Rendering the result\<close>

lemma badge_values:
  \<open>confidence_badge (Number_of (85 / 100)) =
     ''\<newline>        <span class="badge bg-success">\<newline>            85%\<newline>        </span>\<newline>    ''\<close>
  \<open>confidence_badge (Number_of (65 / 100)) =
     ''\<newline>        <span class="badge bg-warning">\<newline>            65%\<newline>        </span>\<newline>    ''\<close>
  \<open>confidence_badge (Number_of (3 / 10)) =
     ''\<newline>        <span class="badge bg-danger">\<newline>            30%\<newline>        </span>\<newline>    ''\<close>
  \<open>confidence_badge 0 =
     ''\<newline>        <span class="badge bg-danger">\<newline>            0%\<newline>        </span>\<newline>    ''\<close>
  by code_simp+

lemma showResults_render:
  assumes "document s ''resultsSection'' = Some rs" and "document s ''documentType'' = Some dt"
    and "document s ''confidence'' = Some cf" and "document s ''routedTo'' = Some rt"
    and "document s ''extractedText'' = Some et"
  shows "\<exists>s'. showResults d s = Done s' \<and>
     document s' ''resultsSection'' = Some (rs\<lparr>display := ''block''\<rparr>) \<and>
     document s' ''documentType'' =
       Some (dt\<lparr>content := Text (or_else (classification_type d) ''Not classified'')\<rparr>) \<and>
     document s' ''confidence'' =
       Some (cf\<lparr>content := Html (confidence_badge (nullish_else (classification_confidence d) 0))\<rparr>) \<and>
     document s' ''routedTo'' =
       Some (rt\<lparr>content := Text (or_else (routing_department d) ''Unassigned'')\<rparr>) \<and>
     document s' ''extractedText'' =
       Some (et\<lparr>content := Html (extracted_text_pre (extracted_text d))\<rparr>)"
  using assms
  by (simp add: showResults_def Let_def seq_def req_elem_def document_upd_elem hideAllSections_def)

lemma showResults_confidence_element:
  assumes "document s ''resultsSection'' \<noteq> None" and "document s ''documentType'' \<noteq> None"
    and "document s ''confidence'' = Some cf"
  shows "document (state_of (showResults d s)) ''confidence'' =
       Some (cf\<lparr>content := Html (confidence_badge (nullish_else (classification_confidence d) 0))\<rparr>)"
  using assms
  by (auto simp: showResults_def Let_def seq_def req_elem_def document_upd_elem hideAllSections_def
      split: option.splits)

lemma document_updateProgress:
  assumes "k \<noteq> ''progressBar''" and "k \<noteq> ''processingStatus''" and "k \<noteq> ''progressContainer''"
  shows "document (updateProgress n m s) k = document s k"
  using assms by (simp add: updateProgress_def document_upd_elem)

lemma page_results_lookup:
  "document page ''documentType'' = Some blank" "document page ''confidence'' = Some blank"
  "document page ''routedTo'' = Some blank" "document page ''extractedText'' = Some blank"
  by (simp_all add: page_def)

text \<open>
  C4. On a page that has the results section and the elements written before the
  badge, \<open>showResults\<close> writes into the confidence element the badge of the
  confidence \<open>x\<close> of the response: its style is chosen by the thresholds 0.8 and
  0.6 and its text is \<^verbatim>\<open>Math.round\<close> of \<open>x\<close> times 100. For 0.85 that is the
  success badge with 85%, for 0.65 the warning badge with 65%, for 0.3 the danger
  badge with 30%.
\<close>

theorem showResults_confidence_badge:
  assumes "classification_confidence d = Some x"
    and "document s ''resultsSection'' \<noteq> None" and "document s ''documentType'' \<noteq> None"
    and "document s ''confidence'' = Some el"
  shows \<open>document (state_of (showResults d s)) ''confidence'' =
           Some (el\<lparr>content := Html (confidence_badge x)\<rparr>) \<and>
         confidence_badge x =
           ''\<newline>        <span class="badge bg-''
             @ (if Number_of (8 / 10) \<le> x then ''success''
                else if Number_of (6 / 10) \<le> x then ''warning'' else ''danger'')
             @ ''">\<newline>            '' @ string_of_int (Math_round (js_times x 100))
             @ ''%\<newline>        </span>\<newline>    '' \<and>
         confidence_badge (Number_of (85 / 100)) =
           ''\<newline>        <span class="badge bg-success">\<newline>            85%\<newline>        </span>\<newline>    '' \<and>
         confidence_badge (Number_of (65 / 100)) =
           ''\<newline>        <span class="badge bg-warning">\<newline>            65%\<newline>        </span>\<newline>    '' \<and>
         confidence_badge (Number_of (3 / 10)) =
           ''\<newline>        <span class="badge bg-danger">\<newline>            30%\<newline>        </span>\<newline>    ''\<close>
proof (intro conjI)
  show "document (state_of (showResults d s)) ''confidence'' =
      Some (el\<lparr>content := Html (confidence_badge x)\<rparr>)"
    using showResults_confidence_element [OF assms(2,3,4), of d] assms(1)
    by (simp add: nullish_else_def)
  show \<open>confidence_badge x =
           ''\<newline>        <span class="badge bg-''
             @ (if Number_of (8 / 10) \<le> x then ''success''
                else if Number_of (6 / 10) \<le> x then ''warning'' else ''danger'')
             @ ''">\<newline>            '' @ string_of_int (Math_round (js_times x 100))
             @ ''%\<newline>        </span>\<newline>    ''\<close>
    unfolding confidence_badge_def getConfidenceBadgeClass_def by (rule refl)
qed (rule badge_values)+

theorem showResults_confidence_badge_witness:
  \<open>classification_confidence (process_ok (Number_of (85 / 100))) = Some (Number_of (85 / 100)) \<and>
   document page ''resultsSection'' \<noteq> None \<and> document page ''documentType'' \<noteq> None \<and>
   document page ''confidence'' = Some blank \<and>
   document (state_of (showResults (process_ok (Number_of (85 / 100))) page)) ''confidence'' =
     Some (blank\<lparr>content := Html
       ''\<newline>        <span class="badge bg-success">\<newline>            85%\<newline>        </span>\<newline>    ''\<rparr>)\<close>
proof -
  have c: "classification_confidence (process_ok (Number_of (85 / 100))) = Some (Number_of (85 / 100))"
    by (simp add: classification_confidence_def process_ok_def)
  have p: "document page ''resultsSection'' \<noteq> None" "document page ''documentType'' \<noteq> None"
    by (simp_all add: page_lookup page_results_lookup)
  from showResults_confidence_badge [OF c p page_results_lookup(2)] c p page_results_lookup(2)
  show ?thesis by metis
qed

text \<open>
  C8. On a page that has the results section and the four elements of the result,
  a processing response with success true sets a timer of one second; when it
  fires, \<open>showResults\<close> makes the results section the one showing among the
  processing, results and error sections, and writes the fields of the response:
  the placeholder \<^verbatim>\<open>Not classified\<close> for an absent type, the badge of 0 for an absent
  confidence, \<^verbatim>\<open>Unassigned\<close> for an absent department and \<^verbatim>\<open>[No text extracted]\<close> for
  an absent text.
\<close>

theorem process_success_shows_results:
  assumes "success d"
    and "document s ''resultsSection'' \<noteq> None" and "document s ''documentType'' \<noteq> None"
    and "document s ''confidence'' \<noteq> None" and "document s ''routedTo'' \<noteq> None"
    and "document s ''extractedText'' \<noteq> None"
  shows \<open>timers (step (ProcessSettled (Resolved d)) s) = timers s @ [(1000, ProcessComplete d)] \<and>
    (let s' = step (Timeout (length (timers s))) (step (ProcessSettled (Resolved d)) s) in
       result_sections s' = [''resultsSection''] \<and>
       (classification_type d = None \<longrightarrow>
          map_option content (document s' ''documentType'') = Some (Text ''Not classified'')) \<and>
       (\<forall>t. classification_type d = Some t \<and> t \<noteq> [] \<longrightarrow>
          map_option content (document s' ''documentType'') = Some (Text t)) \<and>
       (classification_confidence d = None \<longrightarrow>
          map_option content (document s' ''confidence'') = Some (Html
            ''\<newline>        <span class="badge bg-danger">\<newline>            0%\<newline>        </span>\<newline>    '')) \<and>
       (\<forall>x. classification_confidence d = Some x \<longrightarrow>
          map_option content (document s' ''confidence'') = Some (Html (confidence_badge x))) \<and>
       (routing_department d = None \<longrightarrow>
          map_option content (document s' ''routedTo'') = Some (Text ''Unassigned'')) \<and>
       (\<forall>t. routing_department d = Some t \<and> t \<noteq> [] \<longrightarrow>
          map_option content (document s' ''routedTo'') = Some (Text t)) \<and>
       (extracted_text d = None \<longrightarrow>
          map_option content (document s' ''extractedText'') =
            Some (Html ''<pre class="text-wrap">[No text extracted]</pre>'')) \<and>
       (\<forall>t. extracted_text d = Some t \<and> t \<noteq> [] \<longrightarrow>
          map_option content (document s' ''extractedText'') =
            Some (Html (''<pre class="text-wrap">'' @ t @ ''</pre>''))))\<close>
proof -
  let ?s1 = "setTimeout (ProcessComplete d) 1000 (updateProgress 80 ''Classifying document...'' s)"
  let ?t = "updateProgress 100 ''Processing complete!'' (?s1\<lparr>timers := timers s\<rparr>)"
  have s1: "step (ProcessSettled (Resolved d)) s = ?s1"
    using assms(1) by (simp add: processDocument_settled_def processDocument_then_def catch_def)
  have t1: "timers ?s1 = timers s @ [(1000, ProcessComplete d)]"
    by (simp add: setTimeout_def updateProgress_fields)
  then have s2: "step (Timeout (length (timers s))) ?s1 = state_of (showResults d ?t)"
    by simp
  have doc: "document ?t k = document s k"
    if "k \<noteq> ''progressBar''" "k \<noteq> ''processingStatus''" "k \<noteq> ''progressContainer''" for k
    using that by (simp add: document_updateProgress setTimeout_def)
  obtain rs dt cf rt et where e: "document ?t ''resultsSection'' = Some rs"
    "document ?t ''documentType'' = Some dt" "document ?t ''confidence'' = Some cf"
    "document ?t ''routedTo'' = Some rt" "document ?t ''extractedText'' = Some et"
    using assms(2-6) by (auto simp: doc)
  obtain s' where r: "showResults d ?t = Done s'"
    "document s' ''documentType'' =
       Some (dt\<lparr>content := Text (or_else (classification_type d) ''Not classified'')\<rparr>)"
    "document s' ''confidence'' =
       Some (cf\<lparr>content := Html (confidence_badge (nullish_else (classification_confidence d) 0))\<rparr>)"
    "document s' ''routedTo'' =
       Some (rt\<lparr>content := Text (or_else (routing_department d) ''Unassigned'')\<rparr>)"
    "document s' ''extractedText'' =
       Some (et\<lparr>content := Html (extracted_text_pre (extracted_text d))\<rparr>)"
    using showResults_render [OF e, of d] by blast
  have v: "result_sections s' = [''resultsSection'']"
    using showResults_sections [of d ?t] r(1) e(1)
    by (simp add: result_sections_def)
  have "step (Timeout (length (timers s))) (step (ProcessSettled (Resolved d)) s) = s'"
    using s1 s2 r(1) by simp
  moreover note t1 s1 v r(2-5) badge_values(4)
  ultimately show ?thesis
    by (simp add: Let_def or_else_def nullish_else_def extracted_text_pre_def)
qed

theorem process_success_shows_results_witness:
  \<open>success process_bare \<and> document page ''resultsSection'' \<noteq> None \<and>
   document page ''documentType'' \<noteq> None \<and> document page ''confidence'' \<noteq> None \<and>
   document page ''routedTo'' \<noteq> None \<and> document page ''extractedText'' \<noteq> None \<and>
   classification_type process_bare = None \<and> classification_confidence process_bare = None \<and>
   routing_department process_bare = None \<and> extracted_text process_bare = None \<and>
   timers (step (ProcessSettled (Resolved process_bare)) page) = [(1000, ProcessComplete process_bare)] \<and>
   (let s' = step (Timeout 0) (step (ProcessSettled (Resolved process_bare)) page) in
      result_sections s' = [''resultsSection''] \<and>
      map_option content (document s' ''documentType'') = Some (Text ''Not classified'') \<and>
      map_option content (document s' ''confidence'') = Some (Html
        ''\<newline>        <span class="badge bg-danger">\<newline>            0%\<newline>        </span>\<newline>    '') \<and>
      map_option content (document s' ''routedTo'') = Some (Text ''Unassigned'') \<and>
      map_option content (document s' ''extractedText'') =
        Some (Html ''<pre class="text-wrap">[No text extracted]</pre>''))\<close>
proof -
  have b: "success process_bare" "classification_type process_bare = None"
    "classification_confidence process_bare = None" "routing_department process_bare = None"
    "extracted_text process_bare = None"
    by (simp_all add: process_bare_def classification_type_def classification_confidence_def
        routing_department_def)
  have p: "document page ''resultsSection'' \<noteq> None" "document page ''documentType'' \<noteq> None"
    "document page ''confidence'' \<noteq> None" "document page ''routedTo'' \<noteq> None"
    "document page ''extractedText'' \<noteq> None"
    by (simp_all add: page_lookup page_results_lookup)
  from process_success_shows_results [OF b(1) p] b p page_fields(2) show ?thesis
    by (simp del: step.simps add: Let_def)
qed

section \<open>Rebuilding the chart\<close>

lemma updateTypeChart_no_canvas:
  "document s ''typeChart'' = None \<Longrightarrow> updateTypeChart d s = s"
  by (simp add: updateTypeChart_def)

lemma updateTypeChart_document: "document (updateTypeChart d s) = document s"
  by (simp add: updateTypeChart_def new_Chart_def destroy_def split: option.splits)

lemma updateTypeChart_rebuild:
  assumes "document s ''typeChart'' \<noteq> None" and "chart_inv s"
  shows "map fst (charts (updateTypeChart d s)) = [next_chart s]"
    and "typeChart (updateTypeChart d s) = Some (next_chart s)"
    and "next_chart (updateTypeChart d s) = Suc (next_chart s)"
    and "map (labels \<circ> snd) (charts (updateTypeChart d s)) = [map fst d]"
    and "map (data \<circ> snd) (charts (updateTypeChart d s)) = [map snd d]"
proof -
  have "filter (\<lambda>(i, _). i \<noteq> c) cs = []" if "map fst cs = [c]" for c :: nat and cs :: "(nat \<times> chart) list"
    using that by (cases cs) auto
  then show "map fst (charts (updateTypeChart d s)) = [next_chart s]"
    and "typeChart (updateTypeChart d s) = Some (next_chart s)"
    and "next_chart (updateTypeChart d s) = Suc (next_chart s)"
    and "map (labels \<circ> snd) (charts (updateTypeChart d s)) = [map fst d]"
    and "map (data \<circ> snd) (charts (updateTypeChart d s)) = [map snd d]"
    using assms
    by (auto simp: updateTypeChart_def new_Chart_def destroy_def chart_inv_def split: option.splits)
qed

lemma chart_inv_updateTypeChart:
  assumes "chart_inv s"
  shows "chart_inv (updateTypeChart d s)"
proof (cases "document s ''typeChart''")
  case None
  with assms show ?thesis by (simp add: updateTypeChart_no_canvas)
next
  case (Some el)
  then have "document s ''typeChart'' \<noteq> None" by simp
  from updateTypeChart_rebuild(1-3) [OF this assms, of d] show ?thesis
    by (simp add: chart_inv_def)
qed

lemma chart_inv_fold:
  "chart_inv s \<Longrightarrow> chart_inv (fold updateTypeChart ds s)"
  by (induction ds arbitrary: s) (simp_all add: chart_inv_updateTypeChart)

lemma chart_inv_length: "chart_inv s \<Longrightarrow> length (charts s) \<le> 1"
proof -
  assume "chart_inv s"
  then have "length (map fst (charts s)) \<le> 1"
    by (auto simp: chart_inv_def split: option.splits)
  then show ?thesis by simp
qed

text \<open>
  C9. From a state where at most the chart named by the global is alive (as when
  the script has loaded: no chart), any sequence of calls of \<open>updateTypeChart\<close>
  leaves at most one chart instance. On a page that has the canvas, a call destroys
  the chart that was there, the one instance left is the new one with the labels
  and counts of the distribution, and two calls in a row leave exactly one.
\<close>

theorem updateTypeChart_one_instance:
  assumes "chart_inv s"
  shows "length (charts (fold updateTypeChart ds s)) \<le> 1 \<and>
    (document s ''typeChart'' \<noteq> None \<longrightarrow>
       (\<forall>c. typeChart s = Some c \<longrightarrow> c \<notin> set (map fst (charts (updateTypeChart d s)))) \<and>
       map (labels \<circ> snd) (charts (updateTypeChart d s)) = [map fst d] \<and>
       map (data \<circ> snd) (charts (updateTypeChart d s)) = [map snd d] \<and>
       length (charts (updateTypeChart d2 (updateTypeChart d1 s))) = 1)"
proof (intro conjI impI allI)
  show "length (charts (fold updateTypeChart ds s)) \<le> 1"
    by (rule chart_inv_length [OF chart_inv_fold [OF assms]])
next
  fix c
  assume h: "document s ''typeChart'' \<noteq> None" and c: "typeChart s = Some c"
  with assms have "c < next_chart s" by (simp add: chart_inv_def)
  with updateTypeChart_rebuild(1) [OF h assms, of d]
  show "c \<notin> set (map fst (charts (updateTypeChart d s)))" by simp
next
  assume h: "document s ''typeChart'' \<noteq> None"
  show "map (labels \<circ> snd) (charts (updateTypeChart d s)) = [map fst d]"
    and "map (data \<circ> snd) (charts (updateTypeChart d s)) = [map snd d]"
    using updateTypeChart_rebuild(4,5) [OF h assms] by simp_all
  have "document (updateTypeChart d1 s) ''typeChart'' \<noteq> None"
    using h by (simp add: updateTypeChart_document)
  from updateTypeChart_rebuild(1) [OF this chart_inv_updateTypeChart [OF assms], of d2]
  have "length (map fst (charts (updateTypeChart d2 (updateTypeChart d1 s)))) = 1"
    by simp
  then show "length (charts (updateTypeChart d2 (updateTypeChart d1 s))) = 1"
    by simp
qed

theorem updateTypeChart_one_instance_witness:
  "chart_inv page \<and> document page ''typeChart'' \<noteq> None \<and>
   length (charts (fold updateTypeChart [[(''Invoice'', 2)], [(''Invoice'', 2), (''Resume'', 1)]] page)) \<le> 1 \<and>
   map (labels \<circ> snd) (charts (updateTypeChart [(''Invoice'', 2), (''Resume'', 1)] page)) =
     [[''Invoice'', ''Resume'']] \<and>
   length (charts (updateTypeChart [(''Invoice'', 2), (''Resume'', 1)]
     (updateTypeChart [(''Invoice'', 2)] page))) = 1"
proof -
  have i: "chart_inv page"
    by (simp add: chart_inv_def page_fields)
  have c: "document page ''typeChart'' \<noteq> None"
    by (simp add: page_def)
  from updateTypeChart_one_instance [OF i,
      of "[[(''Invoice'', 2)], [(''Invoice'', 2), (''Resume'', 1)]]"
         "[(''Invoice'', 2), (''Resume'', 1)]" "[(''Invoice'', 2), (''Resume'', 1)]" "[(''Invoice'', 2)]"] i c
  show ?thesis by simp
qed

section \<open>The chat\<close>

lemma dropWhile_all_iff:
  "(\<forall>x \<in> set (dropWhile P xs). P x) = (\<forall>x \<in> set xs. P x)"
proof
  assume a: "\<forall>x \<in> set (dropWhile P xs). P x"
  have "dropWhile P xs = []"
  proof (rule ccontr)
    assume n: "dropWhile P xs \<noteq> []"
    then have "\<not> P (hd (dropWhile P xs))" by (rule hd_dropWhile)
    moreover from n have "hd (dropWhile P xs) \<in> set (dropWhile P xs)" by simp
    ultimately show False using a by blast
  qed
  then show "\<forall>x \<in> set xs. P x" by (simp add: dropWhile_eq_Nil_conv)
next
  assume "\<forall>x \<in> set xs. P x"
  then show "\<forall>x \<in> set (dropWhile P xs). P x" by (meson set_dropWhileD)
qed

lemma trim_empty_iff: "(trim v = []) = (\<forall>c \<in> set v. is_space c)"
proof -
  have "(trim v = []) = (\<forall>c \<in> set (dropWhile is_space v). is_space c)"
    by (simp add: trim_def dropWhile_eq_Nil_conv)
  then show ?thesis by (simp add: dropWhile_all_iff)
qed

lemma trim_hi: "trim ''  hi '' = ''hi''"
  by code_simp

text \<open>
  C10. On a page that has the chat input and the transcript, Enter with an input
  whose trimmed value is not empty appends the message to the transcript, empties
  the input and posts the message to \<^verbatim>\<open>/api/chatbot\<close>; Enter with an input of white
  space only, or empty, changes nothing and sends nothing. When the fetch settles
  with a reply the reply is appended, and when it is rejected the fixed line is;
  neither sends a request.
\<close>

theorem chat_keypress_enter:
  assumes "document s ''chat-input'' = Some inp" and "document s ''chat-messages'' = Some box"
  shows
    "(trim (val inp) \<noteq> [] \<longrightarrow>
       (\<exists>s'. chat_keypress ''Enter'' s = Done s' \<and>
          document s' ''chat-messages'' =
            Some (box\<lparr>content := Html (innerHTML box @ ''<div><strong>You:</strong> ''
                                         @ trim (val inp) @ ''</div>'')\<rparr>) \<and>
          document s' ''chat-input'' = Some (inp\<lparr>val := ''''\<rparr>) \<and>
          requests s' = requests s @
            [\<lparr>url = ''/api/chatbot'', http_method = ''POST'',
              headers = [(''Content-Type'', ''application/json'')],
              body = Json [(''message'', trim (val inp))]\<rparr>])) \<and>
     ((\<forall>c \<in> set (val inp). is_space c) \<longrightarrow> chat_keypress ''Enter'' s = Done s) \<and>
     document (chat_settled (Resolved \<lparr>response = Some reply\<rparr>) s) ''chat-messages'' =
       Some (box\<lparr>content := Html (innerHTML box @ ''<div><strong>Bot:</strong> '' @ reply @ ''</div>'')\<rparr>) \<and>
     document (chat_settled (Rejected e) s) ''chat-messages'' =
       Some (box\<lparr>content := Html (innerHTML box
               @ ''<div><strong>Bot:</strong> Error processing your message.</div>'')\<rparr>) \<and>
     requests (chat_settled r s) = requests s"
proof (intro conjI impI)
  assume "trim (val inp) \<noteq> []"
  then show "\<exists>s'. chat_keypress ''Enter'' s = Done s' \<and>
          document s' ''chat-messages'' =
            Some (box\<lparr>content := Html (innerHTML box @ ''<div><strong>You:</strong> ''
                                         @ trim (val inp) @ ''</div>'')\<rparr>) \<and>
          document s' ''chat-input'' = Some (inp\<lparr>val := ''''\<rparr>) \<and>
          requests s' = requests s @
            [\<lparr>url = ''/api/chatbot'', http_method = ''POST'',
              headers = [(''Content-Type'', ''application/json'')],
              body = Json [(''message'', trim (val inp))]\<rparr>]"
    using assms
    by (simp add: chat_keypress_def Let_def fetch_def append_html_def document_upd_elem
        upd_elem_fields)
next
  assume "\<forall>c \<in> set (val inp). is_space c"
  then have "trim (val inp) = []" by (simp add: trim_empty_iff)
  then show "chat_keypress ''Enter'' s = Done s"
    using assms by (simp add: chat_keypress_def)
next
  show "document (chat_settled (Resolved \<lparr>response = Some reply\<rparr>) s) ''chat-messages'' =
       Some (box\<lparr>content := Html (innerHTML box @ ''<div><strong>Bot:</strong> '' @ reply @ ''</div>'')\<rparr>)"
    using assms by (simp add: chat_settled_def append_html_def document_upd_elem)
  show "document (chat_settled (Rejected e) s) ''chat-messages'' =
       Some (box\<lparr>content := Html (innerHTML box
               @ ''<div><strong>Bot:</strong> Error processing your message.</div>'')\<rparr>)"
    using assms by (simp add: chat_settled_def append_html_def document_upd_elem)
  show "requests (chat_settled r s) = requests s"
    by (simp add: chat_settled_def append_html_def upd_elem_fields split: settled.splits)
qed

theorem chat_keypress_enter_witness:
  "document page_chat ''chat-input'' = Some (blank\<lparr>val := ''  hi ''\<rparr>) \<and>
   document page_chat ''chat-messages'' = Some blank \<and>
   trim (val (blank\<lparr>val := ''  hi ''\<rparr>)) \<noteq> [] \<and>
   (\<exists>s'. chat_keypress ''Enter'' page_chat = Done s' \<and>
      map_option content (document s' ''chat-messages'') =
        Some (Html ''<div><strong>You:</strong> hi</div>'') \<and>
      map_option val (document s' ''chat-input'') = Some '''' \<and>
      requests s' =
        [\<lparr>url = ''/api/chatbot'', http_method = ''POST'',
          headers = [(''Content-Type'', ''application/json'')],
          body = Json [(''message'', ''hi'')]\<rparr>]) \<and>
   val blank = [] \<and> chat_keypress ''Enter'' page = Done page"
proof -
  have d: "document page_chat ''chat-input'' = Some (blank\<lparr>val := ''  hi ''\<rparr>)"
    "document page_chat ''chat-messages'' = Some blank"
    by (simp_all add: page_chat_def page_def)
  have p: "document page ''chat-input'' = Some blank" "document page ''chat-messages'' = Some blank"
    by (simp_all add: page_def)
  have t: "trim (val (blank\<lparr>val := ''  hi ''\<rparr>)) = ''hi''"
    by (simp add: trim_hi)
  have e: "\<forall>c \<in> set (val blank). is_space c"
    by (simp add: blank_def)
  have r: "requests page_chat = []"
    by (simp add: page_chat_def page_fields)
  have i: "innerHTML blank = ''''"
    by (simp add: innerHTML_def blank_def)
  have tn: "trim (val (blank\<lparr>val := ''  hi ''\<rparr>)) \<noteq> []"
    using t by simp
  obtain s' where s: "chat_keypress ''Enter'' page_chat = Done s'"
    "document s' ''chat-messages'' =
       Some (blank\<lparr>content := Html (innerHTML blank @ ''<div><strong>You:</strong> ''
          @ trim (val (blank\<lparr>val := ''  hi ''\<rparr>)) @ ''</div>'')\<rparr>)"
    "document s' ''chat-input'' = Some (blank\<lparr>val := ''  hi '', val := ''''\<rparr>)"
    "requests s' = requests page_chat @
       [\<lparr>url = ''/api/chatbot'', http_method = ''POST'',
         headers = [(''Content-Type'', ''application/json'')],
         body = Json [(''message'', trim (val (blank\<lparr>val := ''  hi ''\<rparr>)))]\<rparr>]"
    using chat_keypress_enter [OF d, THEN conjunct1, THEN mp, OF tn] by blast
  have q: "chat_keypress ''Enter'' page = Done page"
    using chat_keypress_enter [OF p, THEN conjunct2, THEN conjunct1, THEN mp, OF e] .
  have "map_option content (document s' ''chat-messages'') =
      Some (Html ''<div><strong>You:</strong> hi</div>'')"
    "map_option val (document s' ''chat-input'') = Some ''''"
    "requests s' =
        [\<lparr>url = ''/api/chatbot'', http_method = ''POST'',
          headers = [(''Content-Type'', ''application/json'')],
          body = Json [(''message'', ''hi'')]\<rparr>]"
    using s(2-4) by (simp_all add: trim_hi i r)
  moreover have "val blank = []"
    by (simp add: blank_def)
  ultimately show ?thesis
    using s(1) q d tn by blast
qed

end
